theory Spec2Isabelle
  imports Main "HOL-Library.Sublist"
begin

section \<open>JavaScript values\<close>

text \<open>
  The values that reach the integration from JSON messages and settings. Numbers are
  the integers the code computes with (millisecond clocks and second timestamps, all
  far below \<open>2^53\<close>, where double arithmetic is exact); \<open>JNaN\<close> is the result of
  arithmetic on a value that is not a number. \<open>JDate\<close> carries the milliseconds of a
  \<^verbatim>\<open>Date\<close> object and \<open>JObj\<close> stands for any other object.
\<close>

datatype jsval =
    JUndefined
  | JNull
  | JBool bool
  | JNum int
  | JNaN
  | JStr string
  | JDate int
  | JObj

fun truthy :: "jsval \<Rightarrow> bool" where
  "truthy JUndefined = False"
| "truthy JNull = False"
| "truthy (JBool b) = b"
| "truthy (JNum n) = (n \<noteq> 0)"
| "truthy JNaN = False"
| "truthy (JStr s) = (s \<noteq> [])"
| "truthy (JDate d) = True"
| "truthy JObj = True"

text \<open>
  A string-valued field that may be missing is a \<open>string option\<close>. \<open>js_or a b\<close> is
  \<^verbatim>\<open>a || b\<close>: the first operand when it is truthy (present and not empty), else the second.
\<close>

definition truthy_str :: "string option \<Rightarrow> bool" where
  "truthy_str a = (case a of None \<Rightarrow> False | Some s \<Rightarrow> s \<noteq> [])"

definition js_or :: "string option \<Rightarrow> string option \<Rightarrow> string option" where
  "js_or a b = (if truthy_str a then a else b)"

text \<open>
  \<^verbatim>\<open>Array.prototype.join(':')\<close>: an element that is undefined or null contributes the
  empty string.
\<close>

definition str_of :: "string option \<Rightarrow> string" where
  "str_of a = (case a of None \<Rightarrow> [] | Some s \<Rightarrow> s)"

fun join :: "string option list \<Rightarrow> string" where
  "join [] = []"
| "join [x] = str_of x"
| "join (x # y # ys) = str_of x @ '':'' @ join (y # ys)"

section \<open>Settings and messages\<close>

record settings =
  appId :: "string option"
  isBulkAPIEnabled :: jsval

datatype action = Identify | Track | Group

text \<open>
  A facade message: \<open>userId\<close> and \<open>email\<close> are what \<^verbatim>\<open>msg.userId()\<close> and
  \<^verbatim>\<open>msg.email()\<close> return, \<open>action\<close> is \<^verbatim>\<open>msg.action()\<close>, and \<open>content\<close> is the
  rest of the message, which only the mappers read.
\<close>

record msg =
  action :: action
  userId :: "string option"
  email :: "string option"
  content :: string

section \<open>Lock keys and job keys\<close>

definition identifyV2_key :: "settings \<Rightarrow> msg \<Rightarrow> string" where
  "identifyV2_key st identify =
     (let id = js_or (userId identify) (email identify)
      in join [appId st, id])"

definition groupV2_key :: "settings \<Rightarrow> msg \<Rightarrow> string" where
  "groupV2_key st grp =
     (let id = js_or (userId grp) (email grp)
      in join [appId st, Some ''groups'', id])"

definition groupV2_jobKey :: "settings \<Rightarrow> msg \<Rightarrow> string" where
  "groupV2_jobKey st grp =
     (let id = js_or (userId grp) (email grp)
      in join [appId st, Some ''jobs'', Some ''users'', id])"

definition trackV2_key :: "settings \<Rightarrow> msg \<Rightarrow> string" where
  "trackV2_key st event =
     (let id = js_or (userId event) (email event)
      in join [appId st, id])"

definition trackV2_jobKey :: "settings \<Rightarrow> msg \<Rightarrow> string" where
  "trackV2_jobKey st event =
     (let id = js_or (userId event) (email event)
      in join [appId st, Some ''jobs'', Some ''events'', id])"

section \<open>Collaborators and observable effects\<close>

text \<open>
  The lock, the Redis client, the HTTP transport, the clock and the mappers are not part
  of this module. Each is a field of \<open>env\<close> that gives the arguments its callback is
  invoked with; every collaborator invokes its callback once. The mappers
  (\<^verbatim>\<open>./v1.mapper\<close>, \<^verbatim>\<open>./v2.mapper\<close>) are taken as parameters: pure functions that
  return a payload object for every message. \<open>post\<close> is the request (endpoint, payload and the
  \<^verbatim>\<open>job\<close> field that \<open>addToExisting\<close> adds; headers and content type are left to
  the transport) after \<^verbatim>\<open>self.handle\<close>: either an error (with the response, when
  there is one) or a successful response. Within one call of an entry point no
  collaborator is asked the same question twice (the append and the create differ in the
  \<^verbatim>\<open>job\<close> field), so a function of the request describes any upstream.

  The body of a response is whatever JSON the upstream sent. \<open>None\<close> is a body that is
  \<^verbatim>\<open>null\<close> or \<^verbatim>\<open>undefined\<close>, on which reading a property throws a TypeError. Any
  other body is given by the two properties the code reads, \<^verbatim>\<open>id\<close> and
  \<^verbatim>\<open>closing_at\<close>, each \<open>JUndefined\<close> when the body does not have it (as on a body that
  is a string, a number, a boolean or an array).
\<close>

datatype error = Error string

record job_body =
  job_id :: jsval
  closing_at :: jsval

record response =
  status :: nat
  body :: "job_body option"

text \<open>
  The numbers of the arithmetic: an integer, or NaN. \<open>to_number\<close> is the conversion that
  the operator \<^verbatim>\<open>-\<close> applies to an operand: \<^verbatim>\<open>undefined\<close> is NaN, \<^verbatim>\<open>null\<close> is 0,
  a boolean is 0 or 1, a number is itself. The conversion of a string, a Date or any other
  object is the language's, taken as the parameter \<open>conv\<close>; it gives \<open>None\<close> when the
  conversion throws a TypeError (an object whose \<^verbatim>\<open>valueOf\<close> and \<^verbatim>\<open>toString\<close> are
  not functions).
\<close>

datatype number = Num int | NaN

definition to_number :: "(jsval \<Rightarrow> number option) \<Rightarrow> jsval \<Rightarrow> number option" where
  "to_number conv v =
     (case v of
        JUndefined \<Rightarrow> Some NaN
      | JNull \<Rightarrow> Some (Num 0)
      | JBool b \<Rightarrow> Some (Num (if b then 1 else 0))
      | JNum n \<Rightarrow> Some (Num n)
      | JNaN \<Rightarrow> Some NaN
      | JStr s \<Rightarrow> conv v
      | JDate d \<Rightarrow> conv v
      | JObj \<Rightarrow> conv v)"

definition js_minus :: "number \<Rightarrow> number \<Rightarrow> number" where
  "js_minus a b =
     (case a of
        NaN \<Rightarrow> NaN
      | Num x \<Rightarrow> (case b of NaN \<Rightarrow> NaN | Num y \<Rightarrow> Num (x - y)))"

datatype outcome = Fail error "response option" | Succeed response

record request =
  endpoint :: string
  data :: string
  job :: "string option"

record env =
  lock :: "string \<Rightarrow> error option"
  redis_get :: "string \<Rightarrow> error option \<times> string option"
  redis_set :: "string \<Rightarrow> jsval \<Rightarrow> number \<Rightarrow> error option"
  post :: "request \<Rightarrow> outcome"
  now :: int
  toNumber :: "jsval \<Rightarrow> number option"
  mapperV1 :: "action \<Rightarrow> msg \<Rightarrow> settings \<Rightarrow> string"
  mapperV2 :: "action \<Rightarrow> msg \<Rightarrow> settings \<Rightarrow> string"
  toIdentify :: "msg \<Rightarrow> msg"

text \<open>
  What one call of an entry point does, in order: each call to a collaborator with the
  reply it got, and the invocation of the caller's callback \<^verbatim>\<open>fn(err, res)\<close>.
  \<open>Throw\<close> is a TypeError escaping from a callback of this module: nothing of the
  request runs after it.
\<close>

datatype event =
    Lock string "error option"
  | RedisGet string "error option" "string option"
  | Post request outcome
  | RedisSet string jsval number "error option"
  | Unlock string
  | Callback "error option" "response option"
  | Throw

text \<open>The callback of a handled request: \<^verbatim>\<open>fn(err, res)\<close>.\<close>

definition reply :: "outcome \<Rightarrow> event" where
  "reply out = (case out of
       Fail err res \<Rightarrow> Callback (Some err) res
     | Succeed res \<Rightarrow> Callback None (Some res))"

section \<open>The bulk-job coordinator\<close>

definition dataType :: "msg \<Rightarrow> string" where
  "dataType m = (if action m = Track then ''events'' else ''users'')"

definition createNewJob_jobKey :: "settings \<Rightarrow> msg \<Rightarrow> string" where
  "createNewJob_jobKey st m =
     (let id = js_or (userId m) (email m)
      in join [appId st, Some ''jobs'', Some (dataType m), id])"

definition create_request :: "settings \<Rightarrow> env \<Rightarrow> msg \<Rightarrow> request" where
  "create_request st e m =
     \<lparr>endpoint = ''/bulk/'' @ dataType m, data = mapperV2 e (action m) m st, job = None\<rparr>"

definition append_request :: "settings \<Rightarrow> env \<Rightarrow> string \<Rightarrow> msg \<Rightarrow> request" where
  "append_request st e jobId m =
     \<lparr>endpoint = ''/bulk/'' @ dataType m, data = mapperV2 e (action m) m st, job = Some jobId\<rparr>"

text \<open>
  \<^verbatim>\<open>Date.now() - job.closing_at - 15000\<close>, on the clock \<open>t\<close> and the converted
  \<open>closing_at\<close>.
\<close>

definition expiration :: "int \<Rightarrow> number \<Rightarrow> number" where
  "expiration t closing = js_minus (js_minus (Num t) closing) (Num 15000)"

text \<open>
  After a successful create, \<^verbatim>\<open>var job = res.body\<close> and the expiration are evaluated
  before \<^verbatim>\<open>redis.set\<close>: reading \<^verbatim>\<open>job.closing_at\<close> throws when the body is null, and
  the subtraction throws when \<open>closing_at\<close> cannot be converted.
\<close>

definition createNewJob :: "settings \<Rightarrow> env \<Rightarrow> msg \<Rightarrow> string \<Rightarrow> event list" where
  "createNewJob st e m key =
     (let jobKey = createNewJob_jobKey st m;
          req = create_request st e m
      in Post req (post e req) #
         (case post e req of
            Fail err res \<Rightarrow> [Unlock key, Callback (Some err) res]
          | Succeed res \<Rightarrow>
              (case body res of
                 None \<Rightarrow> [Throw]
               | Some job' \<Rightarrow>
                   (case to_number (toNumber e) (closing_at job') of
                      None \<Rightarrow> [Throw]
                    | Some closing \<Rightarrow>
                        (let px = expiration (now e) closing
                         in [RedisSet jobKey (job_id job') px
                               (redis_set e jobKey (job_id job') px),
                             Unlock key,
                             Callback None (Some res)])))))"

definition addToExisting :: "settings \<Rightarrow> env \<Rightarrow> string \<Rightarrow> msg \<Rightarrow> string \<Rightarrow> event list" where
  "addToExisting st e jobId m key =
     (let req = append_request st e jobId m
      in Post req (post e req) #
         (case post e req of
            Fail err res \<Rightarrow> createNewJob st e m key
          | Succeed res \<Rightarrow> [Unlock key, Callback None (Some res)]))"

text \<open>
  The callback of \<^verbatim>\<open>redis.get\<close>, which \<open>groupV2\<close> and \<open>trackV2\<close> both contain
  word for word: \<open>lookup_job\<close> is the read with its error branch, \<open>dispatch_job\<close> is
  \<^verbatim>\<open>if (jobId) addToExisting(...) else createNewJob(...)\<close>, where an empty string is
  falsy like a missing value.
\<close>

definition dispatch_job :: "settings \<Rightarrow> env \<Rightarrow> string option \<Rightarrow> msg \<Rightarrow> string \<Rightarrow> event list" where
  "dispatch_job st e jobId m key =
     (case jobId of
        None \<Rightarrow> createNewJob st e m key
      | Some j \<Rightarrow> if j \<noteq> [] then addToExisting st e j m key else createNewJob st e m key)"

definition lookup_job :: "settings \<Rightarrow> env \<Rightarrow> string \<Rightarrow> msg \<Rightarrow> string \<Rightarrow> event list" where
  "lookup_job st e jobKey m key =
     (case redis_get e jobKey of (err, jobId) \<Rightarrow>
        RedisGet jobKey err jobId #
        (case err of
           Some x \<Rightarrow> [Unlock key, Callback (Some x) None]
         | None \<Rightarrow> dispatch_job st e jobId m key))"

definition groupV2 :: "settings \<Rightarrow> env \<Rightarrow> msg \<Rightarrow> event list" where
  "groupV2 st e grp =
     (let key = groupV2_key st grp
      in Lock key (lock e key) #
         (case lock e key of
            Some err \<Rightarrow> [Callback (Some err) None]
          | None \<Rightarrow> lookup_job st e (groupV2_jobKey st grp) grp key))"

definition trackV2 :: "settings \<Rightarrow> env \<Rightarrow> msg \<Rightarrow> event list" where
  "trackV2 st e event =
     (let key = trackV2_key st event
      in Lock key (lock e key) #
         (case lock e key of
            Some err \<Rightarrow> [Callback (Some err) None]
          | None \<Rightarrow> lookup_job st e (trackV2_jobKey st event) event key))"

definition identifyV2 :: "settings \<Rightarrow> env \<Rightarrow> msg \<Rightarrow> event list" where
  "identifyV2 st e identify =
     (let key = identifyV2_key st identify;
          req = \<lparr>endpoint = ''/users'', data = mapperV2 e Identify identify st, job = None\<rparr>
      in Lock key (lock e key) #
         (case lock e key of
            Some err \<Rightarrow> [Callback (Some err) None]
          | None \<Rightarrow> [Post req (post e req), Unlock key, reply (post e req)]))"

section \<open>The single-record implementations and their selection\<close>

definition identifyV1_key :: "settings \<Rightarrow> msg \<Rightarrow> string" where
  "identifyV1_key st identify =
     (let id = js_or (userId identify) (email identify)
      in join [appId st, id])"

definition identifyV1 :: "settings \<Rightarrow> env \<Rightarrow> msg \<Rightarrow> event list" where
  "identifyV1 st e identify =
     (let key = identifyV1_key st identify;
          req = \<lparr>endpoint = ''/users'', data = mapperV1 e Identify identify st, job = None\<rparr>
      in Lock key (lock e key) #
         (case lock e key of
            Some err \<Rightarrow> [Callback (Some err) None]
          | None \<Rightarrow> [Post req (post e req), Unlock key, reply (post e req)]))"

definition trackV1 :: "settings \<Rightarrow> env \<Rightarrow> msg \<Rightarrow> event list" where
  "trackV1 st e track =
     (let req = \<lparr>endpoint = ''/events'', data = mapperV1 e Track track st, job = None\<rparr>
      in [Post req (post e req), reply (post e req)])"

datatype handler = IdentifyV1 | TrackV1 | GroupV1 | IdentifyV2 | TrackV2 | GroupV2

record intercom =
  userAgent :: string
  identify_method :: handler
  track_method :: handler
  group_method :: handler

definition initialize :: "settings \<Rightarrow> intercom" where
  "initialize st =
     (if truthy (isBulkAPIEnabled st)
      then \<lparr>userAgent = ''Segment.io/1.0.0'',
            identify_method = IdentifyV1, track_method = TrackV1, group_method = GroupV1\<rparr>
      else \<lparr>userAgent = ''Segment.io/1.0.0'',
            identify_method = IdentifyV2, track_method = TrackV2, group_method = GroupV2\<rparr>)"

text \<open>
  \<^verbatim>\<open>self.identify(identify, fn)\<close> inside \<open>groupV1\<close> runs whichever implementation is
  installed as \<open>identify\<close>; \<open>toIdentify\<close> is \<^verbatim>\<open>new Identify(json)\<close> on the rewritten
  group message.
\<close>

definition groupV1 :: "intercom \<Rightarrow> settings \<Rightarrow> env \<Rightarrow> msg \<Rightarrow> event list" where
  "groupV1 self st e grp =
     (let req = \<lparr>endpoint = ''/companies'', data = mapperV1 e Group grp st, job = None\<rparr>
      in Post req (post e req) #
         (case post e req of
            Fail err res \<Rightarrow> [Callback (Some err) None]
          | Succeed res \<Rightarrow>
              (if identify_method self = IdentifyV1
               then identifyV1 st e (toIdentify e grp)
               else identifyV2 st e (toIdentify e grp))))"

definition call :: "handler \<Rightarrow> intercom \<Rightarrow> settings \<Rightarrow> env \<Rightarrow> msg \<Rightarrow> event list" where
  "call h self st e m =
     (case h of
        IdentifyV1 \<Rightarrow> identifyV1 st e m
      | TrackV1 \<Rightarrow> trackV1 st e m
      | GroupV1 \<Rightarrow> groupV1 self st e m
      | IdentifyV2 \<Rightarrow> identifyV2 st e m
      | TrackV2 \<Rightarrow> trackV2 st e m
      | GroupV2 \<Rightarrow> groupV2 st e m)"

definition track :: "settings \<Rightarrow> env \<Rightarrow> msg \<Rightarrow> event list" where
  "track st e m = call (track_method (initialize st)) (initialize st) st e m"

section \<open>Reading a trace\<close>

fun unlocks :: "event list \<Rightarrow> string list" where
  "unlocks [] = []"
| "unlocks (Unlock k # es) = k # unlocks es"
| "unlocks (ev # es) = unlocks es"

fun callbacks :: "event list \<Rightarrow> (error option \<times> response option) list" where
  "callbacks [] = []"
| "callbacks (Callback err res # es) = (err, res) # callbacks es"
| "callbacks (ev # es) = callbacks es"

fun posts :: "event list \<Rightarrow> request list" where
  "posts [] = []"
| "posts (Post req out # es) = req # posts es"
| "posts (ev # es) = posts es"

fun locks :: "event list \<Rightarrow> string list" where
  "locks [] = []"
| "locks (Lock k err # es) = k # locks es"
| "locks (ev # es) = locks es"

fun directory_writes :: "event list \<Rightarrow> (string \<times> jsval \<times> number) list" where
  "directory_writes [] = []"
| "directory_writes (RedisSet k v px r # es) = (k, v, px) # directory_writes es"
| "directory_writes (ev # es) = directory_writes es"

fun directory_reads :: "event list \<Rightarrow> string list" where
  "directory_reads [] = []"
| "directory_reads (RedisGet k err v # es) = k # directory_reads es"
| "directory_reads (ev # es) = directory_reads es"

text \<open>
  The successful replies to the create requests of a trace (the requests without a
  \<^verbatim>\<open>job\<close> field), and the replies that \<open>createNewJob\<close> reads without throwing.
\<close>

fun created :: "event list \<Rightarrow> response list" where
  "created [] = []"
| "created (Post req (Succeed r) # es) =
     (if job req = None then r # created es else created es)"
| "created (ev # es) = created es"

definition readable :: "env \<Rightarrow> response \<Rightarrow> bool" where
  "readable e r =
     (case body r of
        None \<Rightarrow> False
      | Some b \<Rightarrow> to_number (toNumber e) (closing_at b) \<noteq> None)"

section \<open>Date traits\<close>

text \<open>
  \<^verbatim>\<open>String.prototype.substr\<close>: a negative start counts from the end of the string and
  is clamped at its beginning; a start beyond the end gives the empty string.
  \<^verbatim>\<open>toLowerCase\<close> is modelled on the ASCII letters.
\<close>

definition substr_from :: "string \<Rightarrow> int \<Rightarrow> string" where
  "substr_from s start =
     (if start < 0 then drop (nat (max (int (length s) + start) 0)) s
      else drop (nat start) s)"

definition substr :: "string \<Rightarrow> int \<Rightarrow> int \<Rightarrow> string" where
  "substr s start len = take (nat len) (substr_from s start)"

definition lower_char :: "char \<Rightarrow> char" where
  "lower_char c =
     (let n = (of_char c :: nat)
      in if 65 \<le> n \<and> n \<le> 90 then char_of (n + 32) else c)"

definition toLowerCase :: "string \<Rightarrow> string" where
  "toLowerCase s = map lower_char s"

definition endswith :: "string \<Rightarrow> string \<Rightarrow> bool" where
  "endswith str suf =
     (let str' = toLowerCase str
      in substr_from str' (int (length str') - int (length suf)) = suf)"

definition dateKey :: "string \<Rightarrow> string" where
  "dateKey key =
     (if endswith key ''_at'' then key
      else if endswith key '' at'' then substr key 0 (int (length key) - 3) @ ''_at''
      else key @ ''_at'')"

definition is_date :: "jsval \<Rightarrow> bool" where
  "is_date v = (case v of JDate d \<Rightarrow> True | _ \<Rightarrow> False)"

text \<open>
  \<open>isostring\<close> and \<open>time\<close> are the library functions of those names. The traits
  object is the list of its entries in the order \<^verbatim>\<open>Object.keys\<close> enumerates them; the
  output object is given by its own properties, built by the assignments
  \<^verbatim>\<open>output[key] = val\<close> in that order. \<open>output\<close> starts as \<^verbatim>\<open>{}\<close>, so the key
  \<^verbatim>\<open>__proto__\<close> reaches the setter of the prototype and no own property is stored
  for it.
\<close>

definition formatEntry ::
  "(jsval \<Rightarrow> bool) \<Rightarrow> (jsval \<Rightarrow> jsval) \<Rightarrow> string \<times> jsval \<Rightarrow> string \<times> jsval" where
  "formatEntry isostring time kv =
     (case kv of (key, val) \<Rightarrow>
        if isostring val \<or> is_date val then (dateKey key, time val) else (key, val))"

definition assign :: "(string \<rightharpoonup> jsval) \<Rightarrow> string \<Rightarrow> jsval \<Rightarrow> (string \<rightharpoonup> jsval)" where
  "assign output key val = (if key = ''__proto__'' then output else output(key \<mapsto> val))"

definition formatTraits ::
  "(jsval \<Rightarrow> bool) \<Rightarrow> (jsval \<Rightarrow> jsval) \<Rightarrow> (string \<times> jsval) list \<Rightarrow> (string \<rightharpoonup> jsval)" where
  "formatTraits isostring time traits =
     fold (\<lambda>kv output. assign output (fst (formatEntry isostring time kv))
                                  (snd (formatEntry isostring time kv)))
          traits Map.empty"

section \<open>Trace predicates and sample inputs\<close>


definition st0 :: settings where
  "st0 = \<lparr>appId = Some ''fcxywseo'', isBulkAPIEnabled = JUndefined\<rparr>"

definition st1 :: settings where
  "st1 = \<lparr>appId = Some ''fcxywseo'', isBulkAPIEnabled = JBool True\<rparr>"

definition track0 :: msg where
  "track0 = \<lparr>action = Track, userId = Some ''u42'', email = None, content = ''Signed Up''\<rparr>"

definition group0 :: msg where
  "group0 = \<lparr>action = Group, userId = Some ''u42'', email = None, content = ''Segment.io''\<rparr>"

definition identify0 :: msg where
  "identify0 = \<lparr>action = Identify, userId = None, email = Some ''a@b.co'', content = ''traits''\<rparr>"

text \<open>
  A healthy environment: every collaborator succeeds, the directory is empty, and the
  upstream opens job \<open>J9\<close> closing 15 minutes after \<open>now\<close> (the clock is in
  milliseconds, \<open>closing_at\<close> a unix time in seconds). Every \<open>closing_at\<close> of the
  samples is a number, so their \<open>toNumber\<close> is never applied.
\<close>

definition job9 :: response where
  "job9 = \<lparr>status = 200,
           body = Some \<lparr>job_id = JStr ''J9'', closing_at = JNum 1470000900\<rparr>\<rparr>"

definition env0 :: env where
  "env0 = \<lparr>lock = (\<lambda>k. None),
           redis_get = (\<lambda>k. (None, None)),
           redis_set = (\<lambda>k v px. None),
           post = (\<lambda>req. Succeed job9),
           now = 1470000000000,
           toNumber = (\<lambda>v. Some NaN),
           mapperV1 = (\<lambda>a m st. content m),
           mapperV2 = (\<lambda>a m st. content m),
           toIdentify = (\<lambda>m. m\<lparr>action := Identify\<rparr>)\<rparr>"

text \<open>The same upstream reporting \<open>closing_at\<close> in milliseconds, 15 minutes ahead.\<close>

definition env_ms :: env where
  "env_ms = env0\<lparr>post := (\<lambda>req. Succeed \<lparr>status = 200,
       body = Some \<lparr>job_id = JStr ''J9'', closing_at = JNum 1470000900000\<rparr>\<rparr>)\<rparr>"




definition env_read_fail :: env where
  "env_read_fail = env0\<lparr>redis_get := (\<lambda>k. (Some (Error ''ECONNREFUSED''), None))\<rparr>"

definition env_write_fail :: env where
  "env_write_fail = env0\<lparr>redis_set := (\<lambda>k v px. Some (Error ''ECONNRESET''))\<rparr>"




text \<open>
  Library stand-ins for the sample traits: \<open>isostring0\<close> accepts one ISO date string,
  \<open>time0\<close> gives the seconds of a date.
\<close>

definition isostring0 :: "jsval \<Rightarrow> bool" where
  "isostring0 v = (v = JStr ''2016-01-01T00:00:00.000Z'')"

definition time0 :: "jsval \<Rightarrow> jsval" where
  "time0 v = (case v of JDate ms \<Rightarrow> JNum (ms div 1000)
                | JStr s \<Rightarrow> if s = ''2016-01-01T00:00:00.000Z'' then JNum 1451606400 else JNaN
                | _ \<Rightarrow> JNaN)"

definition traits0 :: "(string \<times> jsval) list" where
  "traits0 = [(''created_at'', JStr ''x''), (''created'', JDate 1451606400000)]"

definition traits1 :: "(string \<times> jsval) list" where
  "traits1 = [(''name'', JStr ''Ada''), (''Last Seen AT'', JDate 1451606400000),
              (''created'', JStr ''2016-01-01T00:00:00.000Z''),
              (''updated_At'', JDate 1451606401000)]"

section \<open>Facts about the helpers\<close>

lemma str_of_simps: "str_of None = []" "str_of (Some s) = s"
  by (simp_all add: str_of_def)



lemma created_append: "created (xs @ ys) = created xs @ created ys"
  by (induction xs rule: created.induct) simp_all

lemma callbacks_reply:
  "callbacks [reply out] =
     [case out of Fail err res \<Rightarrow> (Some err, res) | Succeed res \<Rightarrow> (None, Some res)]"
  by (simp add: reply_def split: outcome.split)





section \<open>The paths of the coordinator\<close>

lemma createNewJob_Fail:
  "post e (create_request st e m) = Fail err res \<Longrightarrow>
   createNewJob st e m key =
     [Post (create_request st e m) (Fail err res), Unlock key, Callback (Some err) res]"
  by (simp add: createNewJob_def Let_def)

lemma createNewJob_Succeed:
  "post e (create_request st e m) = Succeed res \<Longrightarrow> body res = Some b \<Longrightarrow>
   to_number (toNumber e) (closing_at b) = Some c \<Longrightarrow>
   createNewJob st e m key =
     [Post (create_request st e m) (Succeed res),
      RedisSet (createNewJob_jobKey st m) (job_id b) (expiration (now e) c)
        (redis_set e (createNewJob_jobKey st m) (job_id b) (expiration (now e) c)),
      Unlock key, Callback None (Some res)]"
  by (simp add: createNewJob_def Let_def)

lemma createNewJob_Throw:
  "post e (create_request st e m) = Succeed res \<Longrightarrow> \<not> readable e res \<Longrightarrow>
   createNewJob st e m key = [Post (create_request st e m) (Succeed res), Throw]"
  by (auto simp: createNewJob_def Let_def readable_def split: option.splits)

lemma readableE:
  assumes "readable e res"
  obtains b c where "body res = Some b" and "to_number (toNumber e) (closing_at b) = Some c"
  using assms by (auto simp: readable_def split: option.splits)




lemma posts_createNewJob: "posts (createNewJob st e m key) = [create_request st e m]"
proof (cases "post e (create_request st e m)")
  case (Fail err res)
  then show ?thesis by (simp add: createNewJob_Fail)
next
  case (Succeed res)
  show ?thesis
  proof (cases "readable e res")
    case True
    then obtain b c where "body res = Some b"
      and "to_number (toNumber e) (closing_at b) = Some c"
      by (rule readableE)
    with Succeed show ?thesis by (simp add: createNewJob_Succeed)
  next
    case False
    with Succeed show ?thesis by (simp add: createNewJob_Throw)
  qed
qed







lemma lookup_job_read_error:
  "fst (redis_get e jobKey) = Some x \<Longrightarrow>
   lookup_job st e jobKey m key =
     [RedisGet jobKey (Some x) (snd (redis_get e jobKey)), Unlock key, Callback (Some x) None]"
  by (cases "redis_get e jobKey") (simp add: lookup_job_def)

lemma lookup_job_miss:
  "redis_get e jobKey = (None, None) \<Longrightarrow>
   lookup_job st e jobKey m key = RedisGet jobKey None None # createNewJob st e m key"
  by (simp add: lookup_job_def dispatch_job_def)


lemma trackV2_locked:
  "lock e (trackV2_key st m) = None \<Longrightarrow>
   trackV2 st e m =
     Lock (trackV2_key st m) None # lookup_job st e (trackV2_jobKey st m) m (trackV2_key st m)"
  by (simp add: trackV2_def Let_def)

lemma groupV2_locked:
  "lock e (groupV2_key st m) = None \<Longrightarrow>
   groupV2 st e m =
     Lock (groupV2_key st m) None # lookup_job st e (groupV2_jobKey st m) m (groupV2_key st m)"
  by (simp add: groupV2_def Let_def)




section \<open>Sample inputs evaluated\<close>

lemma sample_keys:
  "trackV2_key st0 track0 = ''fcxywseo:u42''"
  "trackV2_jobKey st0 track0 = ''fcxywseo:jobs:events:u42''"
  "groupV2_key st0 group0 = ''fcxywseo:groups:u42''"
  "groupV2_jobKey st0 group0 = ''fcxywseo:jobs:users:u42''"
  "identifyV2_key st0 identify0 = ''fcxywseo:a@b.co''"
  "createNewJob_jobKey st0 track0 = ''fcxywseo:jobs:events:u42''"
  "createNewJob_jobKey st0 group0 = ''fcxywseo:jobs:users:u42''"
  "identifyV1_key st1 identify0 = ''fcxywseo:a@b.co''"
  by (simp_all add: trackV2_key_def trackV2_jobKey_def groupV2_key_def groupV2_jobKey_def
        identifyV2_key_def identifyV1_key_def createNewJob_jobKey_def dataType_def
        st0_def st1_def track0_def group0_def identify0_def js_or_def truthy_str_def str_of_def)



lemma sample_env0:
  "lock env0 k = None"
  "redis_get env0 k = (None, None)"
  "redis_set env0 k v px = None"
  "post env0 req = Succeed job9"
  "now env0 = 1470000000000"
  "mapperV1 env0 a m st = content m"
  "mapperV2 env0 a m st = content m"
  "readable env0 job9"
  by (simp_all add: env0_def readable_def job9_def to_number_def)

lemma sample_read_fail:
  "lock env_read_fail k = None"
  "redis_get env_read_fail k = (Some (Error ''ECONNREFUSED''), None)"
  by (simp_all add: env_read_fail_def env0_def)

lemma sample_write_fail:
  "lock env_write_fail k = None"
  "redis_get env_write_fail k = (None, None)"
  "redis_set env_write_fail k v px = Some (Error ''ECONNRESET'')"
  "post env_write_fail req = Succeed job9"
  "now env_write_fail = 1470000000000"
  "mapperV2 env_write_fail a m st = content m"
  "toNumber env_write_fail = toNumber env0"
  by (simp_all add: env_write_fail_def env0_def)



lemma sample_job9:
  "body job9 = Some \<lparr>job_id = JStr ''J9'', closing_at = JNum 1470000900\<rparr>"
  "to_number conv (JNum n) = Some (Num n)"
  "expiration 1470000000000 (Num 1470000900) = Num 1468529984100"
  "expiration 1470000000000 (Num 1470000900000) = Num (- 915000)"
  by (simp_all add: job9_def to_number_def expiration_def js_minus_def)

section \<open>Date keys\<close>

lemma length_toLowerCase: "length (toLowerCase s) = length s"
  by (simp add: toLowerCase_def)

lemma substr_from_suffix:
  "(substr_from s (int (length s) - int (length suf)) = suf) = suffix suf s"
proof (cases "length suf \<le> length s")
  case True
  then have n: "nat (int (length s) - int (length suf)) = length s - length suf"
    by simp
  have "(drop (length s - length suf) s = suf) = suffix suf s"
  proof
    assume "drop (length s - length suf) s = suf"
    then have "s = take (length s - length suf) s @ suf"
      by (metis append_take_drop_id)
    then show "suffix suf s"
      unfolding suffix_def by blast
  next
    assume "suffix suf s"
    then obtain zs where "s = zs @ suf"
      unfolding suffix_def by blast
    then show "drop (length s - length suf) s = suf"
      by simp
  qed
  with True n show ?thesis
    by (simp add: substr_from_def)
next
  case False
  then have "length (substr_from s (int (length s) - int (length suf))) < length suf"
    by (simp add: substr_from_def)
  then have "substr_from s (int (length s) - int (length suf)) \<noteq> suf"
    by auto
  moreover from False have "\<not> suffix suf s"
    using suffix_length_le by fastforce
  ultimately show ?thesis by simp
qed

lemma endswith_suffix: "endswith str suf = suffix suf (toLowerCase str)"
  by (simp add: endswith_def Let_def substr_from_suffix)

lemma dateKey_suffix:
  "dateKey key =
     (if suffix ''_at'' (toLowerCase key) then key
      else if suffix '' at'' (toLowerCase key) then take (length key - 3) key @ ''_at''
      else key @ ''_at'')"
proof -
  have "suffix '' at'' (toLowerCase key) \<Longrightarrow> 3 \<le> length key"
    using suffix_length_le [of "'' at''" "toLowerCase key"] by (simp add: length_toLowerCase)
  then show ?thesis
    by (auto simp: dateKey_def endswith_suffix substr_def substr_from_def nat_diff_distrib)
qed

lemma fold_assign_other:
  "\<forall>kv \<in> set xs. fst (F kv) \<noteq> k \<Longrightarrow>
   fold (\<lambda>kv output. assign output (fst (F kv)) (snd (F kv))) xs out k = out k"
  by (induction xs arbitrary: out) (auto simp: assign_def)

lemma fold_assign_proto:
  "out ''__proto__'' = None \<Longrightarrow>
   fold (\<lambda>kv output. assign output (fst (F kv)) (snd (F kv))) xs out ''__proto__'' = None"
  by (induction xs arbitrary: out) (auto simp: assign_def)

lemma formatTraits_proto: "formatTraits isostring time traits ''__proto__'' = None"
  unfolding formatTraits_def by (rule fold_assign_proto) simp

lemma formatTraits_last_write:
  assumes "i < length traits"
    and "fst (formatEntry isostring time (traits ! i)) \<noteq> ''__proto__''"
    and "\<forall>kv \<in> set (drop (Suc i) traits).
           fst (formatEntry isostring time kv) \<noteq> fst (formatEntry isostring time (traits ! i))"
  shows "formatTraits isostring time traits (fst (formatEntry isostring time (traits ! i))) =
           Some (snd (formatEntry isostring time (traits ! i)))"
proof -
  let ?F = "formatEntry isostring time"
  let ?step = "\<lambda>kv output. assign output (fst (?F kv)) (snd (?F kv))"
  have split: "traits = take i traits @ traits ! i # drop (Suc i) traits"
    using assms(1) by (rule id_take_nth_drop)
  have "fold ?step traits Map.empty =
          fold ?step (drop (Suc i) traits)
            (assign (fold ?step (take i traits) Map.empty)
               (fst (?F (traits ! i))) (snd (?F (traits ! i))))"
    by (subst split) simp
  then show ?thesis
    unfolding formatTraits_def
    using fold_assign_other [of "drop (Suc i) traits" ?F "fst (?F (traits ! i))", OF assms(3)]
      assms(2)
    by (simp add: assign_def)
qed

lemma dateKey_last_seen: "dateKey ''Last Seen AT'' = ''Last Seen_at''"
  by code_simp
lemma dateKey_created: "dateKey ''created'' = ''created_at''"
  by code_simp
lemma dateKey_updated: "dateKey ''updated_At'' = ''updated_At''"
  by code_simp

lemma traits1_entry1: "(1::nat) < length traits1"
    "traits1 ! 1 = (''Last Seen AT'', JDate 1451606400000)"
    "fst (formatEntry isostring0 time0 (''Last Seen AT'', JDate 1451606400000)) \<noteq> ''__proto__''"
    "\<forall>kv \<in> set (drop (Suc 1) traits1).
       fst (formatEntry isostring0 time0 kv)
         \<noteq> fst (formatEntry isostring0 time0 (''Last Seen AT'', JDate 1451606400000))"
  by (simp_all add: traits1_def formatEntry_def isostring0_def is_date_def
        dateKey_last_seen dateKey_created dateKey_updated)

lemma traits1_entry0: "(0::nat) < length traits1"
    "traits1 ! 0 = (''name'', JStr ''Ada'')"
    "fst (formatEntry isostring0 time0 (''name'', JStr ''Ada'')) \<noteq> ''__proto__''"
    "\<forall>kv \<in> set (drop (Suc 0) traits1).
       fst (formatEntry isostring0 time0 kv)
         \<noteq> fst (formatEntry isostring0 time0 (''name'', JStr ''Ada''))"
  by (simp_all add: traits1_def formatEntry_def isostring0_def is_date_def
        dateKey_last_seen dateKey_created dateKey_updated)

section \<open>Claims\<close>







text \<open>
  Claim C3. The expiry written after a successful create is
  \<^verbatim>\<open>Date.now() - job.closing_at - 15000\<close>: the closing window \<open>c - t\<close> enters negated.
  For a job closing 15 minutes after \<open>now\<close> the window is 900000 ms and the comment in
  the code announces 14.75 minutes (885000 ms); the code writes 1468529984100 ms when
  \<open>closing_at\<close> is a unix time in seconds and -915000 ms when it is in milliseconds.
\<close>

theorem expiration_at_failing_input:
  "directory_writes (createNewJob st0 env0 track0 ''fcxywseo:u42'') =
     [(''fcxywseo:jobs:events:u42'', JStr ''J9'', Num 1468529984100)]
   \<and> directory_writes (createNewJob st0 env_ms track0 ''fcxywseo:u42'') =
     [(''fcxywseo:jobs:events:u42'', JStr ''J9'', Num (- 915000))]
   \<and> expiration t (Num c) = Num (- (c - t) - 15000)"
  by (simp add: createNewJob_def Let_def sample_keys sample_env0 env_ms_def env0_def
        job9_def to_number_def expiration_def js_minus_def)

text \<open>
  Claim C4. When the lock is acquired and the directory read of \<open>trackV2\<close> or
  \<open>groupV2\<close> returns no error and no job id, the trace continues with
  \<open>createNewJob\<close>: the only upstream request is the create request, which carries no
  job id, so no append is issued.
\<close>

theorem directory_miss_creates_once:
  "(lock e (trackV2_key st m) = None
      \<and> redis_get e (trackV2_jobKey st m) = (None, None) \<longrightarrow>
      trackV2 st e m =
        Lock (trackV2_key st m) None # RedisGet (trackV2_jobKey st m) None None #
        createNewJob st e m (trackV2_key st m)
      \<and> posts (trackV2 st e m) = [create_request st e m])
   \<and> (lock e (groupV2_key st m) = None
      \<and> redis_get e (groupV2_jobKey st m) = (None, None) \<longrightarrow>
      groupV2 st e m =
        Lock (groupV2_key st m) None # RedisGet (groupV2_jobKey st m) None None #
        createNewJob st e m (groupV2_key st m)
      \<and> posts (groupV2 st e m) = [create_request st e m])
   \<and> job (create_request st e m) = None
   \<and> endpoint (create_request st e m) = ''/bulk/'' @ dataType m"
proof (intro conjI impI; (elim conjE)?)
  assume l: "lock e (trackV2_key st m) = None"
    and g: "redis_get e (trackV2_jobKey st m) = (None, None)"
  show t: "trackV2 st e m =
        Lock (trackV2_key st m) None # RedisGet (trackV2_jobKey st m) None None #
        createNewJob st e m (trackV2_key st m)"
    by (simp add: trackV2_locked [OF l] lookup_job_miss [OF g])
  show "posts (trackV2 st e m) = [create_request st e m]"
    by (simp add: t posts_createNewJob)
next
  assume l: "lock e (groupV2_key st m) = None"
    and g: "redis_get e (groupV2_jobKey st m) = (None, None)"
  show t: "groupV2 st e m =
        Lock (groupV2_key st m) None # RedisGet (groupV2_jobKey st m) None None #
        createNewJob st e m (groupV2_key st m)"
    by (simp add: groupV2_locked [OF l] lookup_job_miss [OF g])
  show "posts (groupV2 st e m) = [create_request st e m]"
    by (simp add: t posts_createNewJob)
next
  show "job (create_request st e m) = None"
    by (simp add: create_request_def)
  show "endpoint (create_request st e m) = ''/bulk/'' @ dataType m"
    by (simp add: create_request_def)
qed

theorem directory_miss_creates_once_witness:
  "lock env0 (trackV2_key st0 track0) = None
   \<and> redis_get env0 (trackV2_jobKey st0 track0) = (None, None)
   \<and> posts (trackV2 st0 env0 track0) =
       [\<lparr>endpoint = ''/bulk/events'', data = ''Signed Up'', job = None\<rparr>]
   \<and> lock env0 (groupV2_key st0 group0) = None
   \<and> redis_get env0 (groupV2_jobKey st0 group0) = (None, None)
   \<and> posts (groupV2 st0 env0 group0) =
       [\<lparr>endpoint = ''/bulk/users'', data = ''Segment.io'', job = None\<rparr>]"
proof -
  have c: "create_request st0 env0 track0 =
          \<lparr>endpoint = ''/bulk/events'', data = ''Signed Up'', job = None\<rparr>"
       "create_request st0 env0 group0 =
          \<lparr>endpoint = ''/bulk/users'', data = ''Segment.io'', job = None\<rparr>"
    by (simp_all add: create_request_def dataType_def sample_env0 track0_def group0_def)
  have h: "lock env0 (trackV2_key st0 track0) = None
      \<and> redis_get env0 (trackV2_jobKey st0 track0) = (None, None)"
    "lock env0 (groupV2_key st0 group0) = None
      \<and> redis_get env0 (groupV2_jobKey st0 group0) = (None, None)"
    by (simp_all add: sample_env0)
  have "posts (trackV2 st0 env0 track0) = [create_request st0 env0 track0]"
    using directory_miss_creates_once [of env0 st0 track0] h(1) by blast
  moreover have "posts (groupV2 st0 env0 group0) = [create_request st0 env0 group0]"
    using directory_miss_creates_once [of env0 st0 group0] h(2) by blast
  ultimately show ?thesis
    by (simp add: c sample_env0)
qed

text \<open>
  Claim C5. When the create request succeeds and the directory write that follows
  (the \<^verbatim>\<open>redis.set\<close> of the reply's \<open>id\<close> with the computed expiration) fails, the
  lock is still released and the caller receives no error and the create response, the
  same callback as when the write succeeds.
\<close>

theorem directory_write_failure_ignored:
  "post e (create_request st e m) = Succeed r
   \<and> body r = Some b \<and> to_number (toNumber e) (closing_at b) = Some c
   \<and> redis_set e (createNewJob_jobKey st m) (job_id b) (expiration (now e) c)
        = Some fail \<longrightarrow>
   createNewJob st e m key =
     [Post (create_request st e m) (Succeed r),
      RedisSet (createNewJob_jobKey st m) (job_id b) (expiration (now e) c) (Some fail),
      Unlock key, Callback None (Some r)]
   \<and> callbacks (createNewJob st e m key) = [(None, Some r)]
   \<and> callbacks (createNewJob st (e\<lparr>redis_set := (\<lambda>k v px. None)\<rparr>) m key) =
       callbacks (createNewJob st e m key)"
proof (intro impI; elim conjE)
  assume p: "post e (create_request st e m) = Succeed r"
    and b: "body r = Some b" and c: "to_number (toNumber e) (closing_at b) = Some c"
    and f: "redis_set e (createNewJob_jobKey st m) (job_id b) (expiration (now e) c)
              = Some fail"
  let ?e = "e\<lparr>redis_set := (\<lambda>k v px. None)\<rparr>"
  have t: "createNewJob st e m key =
     [Post (create_request st e m) (Succeed r),
      RedisSet (createNewJob_jobKey st m) (job_id b) (expiration (now e) c) (Some fail),
      Unlock key, Callback None (Some r)]"
    by (simp add: createNewJob_Succeed [OF p b c] f)
  have "create_request st ?e m = create_request st e m"
    by (simp add: create_request_def)
  then have "post ?e (create_request st ?e m) = Succeed r"
    using p by simp
  moreover have "to_number (toNumber ?e) (closing_at b) = Some c"
    using c by simp
  ultimately have "callbacks (createNewJob st ?e m key) = [(None, Some r)]"
    using b by (simp add: createNewJob_Succeed)
  then show "createNewJob st e m key =
     [Post (create_request st e m) (Succeed r),
      RedisSet (createNewJob_jobKey st m) (job_id b) (expiration (now e) c) (Some fail),
      Unlock key, Callback None (Some r)]
   \<and> callbacks (createNewJob st e m key) = [(None, Some r)]
   \<and> callbacks (createNewJob st ?e m key) = callbacks (createNewJob st e m key)"
    using t by simp
qed

theorem directory_write_failure_ignored_witness:
  "post env_write_fail (create_request st0 env_write_fail track0) = Succeed job9
   \<and> body job9 = Some \<lparr>job_id = JStr ''J9'', closing_at = JNum 1470000900\<rparr>
   \<and> to_number (toNumber env_write_fail) (JNum 1470000900) = Some (Num 1470000900)
   \<and> redis_set env_write_fail (createNewJob_jobKey st0 track0) (JStr ''J9'')
        (expiration (now env_write_fail) (Num 1470000900)) = Some (Error ''ECONNRESET'')
   \<and> callbacks (createNewJob st0 env_write_fail track0 ''fcxywseo:u42'') =
       [(None, Some job9)]"
  using directory_write_failure_ignored [of env_write_fail st0 track0 job9
      "\<lparr>job_id = JStr ''J9'', closing_at = JNum 1470000900\<rparr>" "Num 1470000900"
      "Error ''ECONNRESET''" "''fcxywseo:u42''"]
  by (simp add: sample_write_fail sample_job9)

text \<open>
  Claim C6. When the lock is acquired and the directory read of \<open>trackV2\<close> or
  \<open>groupV2\<close> returns an error, the lock is released, then the caller receives that
  error, and no upstream request is issued.
\<close>

theorem directory_read_failure_unlocks_and_reports:
  "(lock e (trackV2_key st m) = None
      \<and> redis_get e (trackV2_jobKey st m) = (Some x, jobId) \<longrightarrow>
      trackV2 st e m =
        [Lock (trackV2_key st m) None, RedisGet (trackV2_jobKey st m) (Some x) jobId,
         Unlock (trackV2_key st m), Callback (Some x) None]
      \<and> posts (trackV2 st e m) = [])
   \<and> (lock e (groupV2_key st m) = None
      \<and> redis_get e (groupV2_jobKey st m) = (Some x, jobId) \<longrightarrow>
      groupV2 st e m =
        [Lock (groupV2_key st m) None, RedisGet (groupV2_jobKey st m) (Some x) jobId,
         Unlock (groupV2_key st m), Callback (Some x) None]
      \<and> posts (groupV2 st e m) = [])"
proof (intro conjI impI; elim conjE)
  assume l: "lock e (trackV2_key st m) = None"
    and g: "redis_get e (trackV2_jobKey st m) = (Some x, jobId)"
  show t: "trackV2 st e m =
        [Lock (trackV2_key st m) None, RedisGet (trackV2_jobKey st m) (Some x) jobId,
         Unlock (trackV2_key st m), Callback (Some x) None]"
    using lookup_job_read_error [of e "trackV2_jobKey st m" x st m "trackV2_key st m"] g
    by (simp add: trackV2_locked [OF l])
  show "posts (trackV2 st e m) = []"
    by (simp add: t)
next
  assume l: "lock e (groupV2_key st m) = None"
    and g: "redis_get e (groupV2_jobKey st m) = (Some x, jobId)"
  show t: "groupV2 st e m =
        [Lock (groupV2_key st m) None, RedisGet (groupV2_jobKey st m) (Some x) jobId,
         Unlock (groupV2_key st m), Callback (Some x) None]"
    using lookup_job_read_error [of e "groupV2_jobKey st m" x st m "groupV2_key st m"] g
    by (simp add: groupV2_locked [OF l])
  show "posts (groupV2 st e m) = []"
    by (simp add: t)
qed

theorem directory_read_failure_unlocks_and_reports_witness:
  "lock env_read_fail (trackV2_key st0 track0) = None
   \<and> redis_get env_read_fail (trackV2_jobKey st0 track0) = (Some (Error ''ECONNREFUSED''), None)
   \<and> trackV2 st0 env_read_fail track0 =
        [Lock ''fcxywseo:u42'' None,
         RedisGet ''fcxywseo:jobs:events:u42'' (Some (Error ''ECONNREFUSED'')) None,
         Unlock ''fcxywseo:u42'', Callback (Some (Error ''ECONNREFUSED'')) None]
   \<and> groupV2 st0 env_read_fail group0 =
        [Lock ''fcxywseo:groups:u42'' None,
         RedisGet ''fcxywseo:jobs:users:u42'' (Some (Error ''ECONNREFUSED'')) None,
         Unlock ''fcxywseo:groups:u42'', Callback (Some (Error ''ECONNREFUSED'')) None]"
  using directory_read_failure_unlocks_and_reports [of env_read_fail st0 track0 "Error ''ECONNREFUSED''" None]
        directory_read_failure_unlocks_and_reports [of env_read_fail st0 group0 "Error ''ECONNREFUSED''" None]
  by (simp add: sample_read_fail sample_keys)

text \<open>
  Claim C7. For every tenant \<open>appId\<close> and user identity, \<open>identifyV2\<close> and
  \<open>trackV2\<close> compute the same lock key \<open>appId:id\<close>, and \<open>groupV2\<close> computes
  \<open>appId:groups:id\<close>, which differs from it.
\<close>

theorem lock_key_domains: "identifyV2_key st m = trackV2_key st m
   \<and> trackV2_key st m = str_of (appId st) @ '':'' @ str_of (js_or (userId m) (email m))
   \<and> groupV2_key st m = str_of (appId st) @ '':groups:'' @ str_of (js_or (userId m) (email m))
   \<and> groupV2_key st m \<noteq> trackV2_key st m"
  by (simp add: identifyV2_key_def trackV2_key_def groupV2_key_def Let_def str_of_simps)

text \<open>
  Claim C9. As stated the claim fails when two entries are written under the same
  output key: a non-date entry \<open>created_at\<close> followed by a date entry \<open>created\<close> is
  overwritten by the converted date, so it is not passed through.
\<close>

theorem formatTraits_collision_counterexample:
  "(''created_at'', JStr ''x'') \<in> set traits0
   \<and> \<not> (isostring0 (JStr ''x'') \<or> is_date (JStr ''x''))
   \<and> formatTraits isostring0 time0 traits0 ''created_at'' = Some (JNum 1451606400)
   \<and> formatTraits isostring0 time0 traits0 ''created_at'' \<noteq> Some (JStr ''x'')"
  by (simp add: traits0_def isostring0_def is_date_def time0_def formatTraits_def
        formatEntry_def assign_def dateKey_created)

text \<open>
  Claim C9, amended. For every entry of the traits object whose output key is not
  \<open>__proto__\<close> and that no later entry overwrites (no later entry is written under
  the same output key): a date entry (ISO string or Date) appears in the output under
  \<open>dateKey key\<close> with the value \<open>time val\<close>, any other entry appears under its own
  key with its own value; and \<open>dateKey\<close> leaves a key ending in \<open>_at\<close> unchanged,
  replaces a final \<open> at\<close> by \<open>_at\<close>, and appends \<open>_at\<close> otherwise, both suffix
  tests ignoring case.
\<close>

theorem formatTraits_entry:
  assumes "i < length traits" and "traits ! i = (key, val)"
    and "fst (formatEntry isostring time (key, val)) \<noteq> ''__proto__''"
    and "\<forall>kv \<in> set (drop (Suc i) traits).
           fst (formatEntry isostring time kv) \<noteq> fst (formatEntry isostring time (key, val))"
  shows "(if isostring val \<or> is_date val
          then formatTraits isostring time traits (dateKey key) = Some (time val)
          else formatTraits isostring time traits key = Some val)
       \<and> dateKey key =
           (if suffix ''_at'' (toLowerCase key) then key
            else if suffix '' at'' (toLowerCase key) then take (length key - 3) key @ ''_at''
            else key @ ''_at'')"
proof
  show "if isostring val \<or> is_date val
          then formatTraits isostring time traits (dateKey key) = Some (time val)
          else formatTraits isostring time traits key = Some val"
  proof (cases "isostring val \<or> is_date val")
    case True
    then have "formatEntry isostring time (traits ! i) = (dateKey key, time val)"
      using assms(2) by (simp add: formatEntry_def)
    with True show ?thesis
      using formatTraits_last_write [of i traits isostring time] assms by simp
  next
    case False
    then have "formatEntry isostring time (traits ! i) = (key, val)"
      using assms(2) by (simp add: formatEntry_def)
    with False show ?thesis
      using formatTraits_last_write [of i traits isostring time] assms by simp
  qed
  show "dateKey key =
           (if suffix ''_at'' (toLowerCase key) then key
            else if suffix '' at'' (toLowerCase key) then take (length key - 3) key @ ''_at''
            else key @ ''_at'')"
    by (rule dateKey_suffix)
qed

theorem formatTraits_entry_witness:
  "(1::nat) < length traits1
   \<and> traits1 ! 1 = (''Last Seen AT'', JDate 1451606400000)
   \<and> formatTraits isostring0 time0 traits1 ''Last Seen_at'' = Some (JNum 1451606400)
   \<and> traits1 ! 0 = (''name'', JStr ''Ada'')
   \<and> formatTraits isostring0 time0 traits1 ''name'' = Some (JStr ''Ada'')"
proof -
  have v: "isostring0 (JDate 1451606400000) \<or> is_date (JDate 1451606400000)"
    "time0 (JDate 1451606400000) = JNum 1451606400"
    "\<not> (isostring0 (JStr ''Ada'') \<or> is_date (JStr ''Ada''))"
    by (simp_all add: is_date_def time0_def isostring0_def)
  have "formatTraits isostring0 time0 traits1 ''Last Seen_at'' = Some (JNum 1451606400)"
    using formatTraits_entry [OF traits1_entry1, THEN conjunct1] v dateKey_last_seen by simp
  moreover have "formatTraits isostring0 time0 traits1 ''name'' = Some (JStr ''Ada'')"
    using formatTraits_entry [OF traits1_entry0, THEN conjunct1] v by simp
  ultimately show ?thesis
    using traits1_entry1 traits1_entry0 by simp
qed

text \<open>
  Claim C10. \<open>initialize\<close> installs \<open>identifyV1\<close>, \<open>trackV1\<close> and \<open>groupV1\<close>
  exactly when \<open>isBulkAPIEnabled\<close> is truthy and the V2 implementations exactly when
  it is falsy; \<open>trackV1\<close> issues one request to \<open>/events\<close> and takes no lock, releases
  none, and neither reads nor writes the job directory.
\<close>

theorem initialize_selects_implementation:
  "(truthy (isBulkAPIEnabled st) \<longrightarrow>
      initialize st = \<lparr>userAgent = ''Segment.io/1.0.0'', identify_method = IdentifyV1,
                       track_method = TrackV1, group_method = GroupV1\<rparr>
      \<and> track st e m = trackV1 st e m)
   \<and> (\<not> truthy (isBulkAPIEnabled st) \<longrightarrow>
      initialize st = \<lparr>userAgent = ''Segment.io/1.0.0'', identify_method = IdentifyV2,
                       track_method = TrackV2, group_method = GroupV2\<rparr>
      \<and> track st e m = trackV2 st e m)
   \<and> posts (trackV1 st e m) =
       [\<lparr>endpoint = ''/events'', data = mapperV1 e Track m st, job = None\<rparr>]
   \<and> locks (trackV1 st e m) = [] \<and> unlocks (trackV1 st e m) = []
   \<and> directory_reads (trackV1 st e m) = [] \<and> directory_writes (trackV1 st e m) = []"
proof -
  have "reply out = Callback (case out of Fail err res \<Rightarrow> Some err | Succeed res \<Rightarrow> None)
                             (case out of Fail err res \<Rightarrow> res | Succeed res \<Rightarrow> Some res)"
    for out
    by (simp add: reply_def split: outcome.split)
  then have "posts (trackV1 st e m) =
       [\<lparr>endpoint = ''/events'', data = mapperV1 e Track m st, job = None\<rparr>]
   \<and> locks (trackV1 st e m) = [] \<and> unlocks (trackV1 st e m) = []
   \<and> directory_reads (trackV1 st e m) = [] \<and> directory_writes (trackV1 st e m) = []"
    by (simp add: trackV1_def Let_def)
  then show ?thesis
    by (simp add: initialize_def track_def call_def)
qed

theorem initialize_selects_implementation_witness:
  "truthy (isBulkAPIEnabled st1) \<and> track_method (initialize st1) = TrackV1
   \<and> track st1 env0 track0 =
       [Post \<lparr>endpoint = ''/events'', data = ''Signed Up'', job = None\<rparr> (Succeed job9),
        Callback None (Some job9)]
   \<and> \<not> truthy (isBulkAPIEnabled st0) \<and> track_method (initialize st0) = TrackV2
   \<and> track st0 env0 track0 = trackV2 st0 env0 track0"
proof -
  have t: "truthy (isBulkAPIEnabled st1)" "\<not> truthy (isBulkAPIEnabled st0)"
    by (simp_all add: st0_def st1_def)
  have "trackV1 st1 env0 track0 =
       [Post \<lparr>endpoint = ''/events'', data = ''Signed Up'', job = None\<rparr> (Succeed job9),
        Callback None (Some job9)]"
    by (simp add: trackV1_def Let_def sample_env0 reply_def track0_def)
  then show ?thesis
    using initialize_selects_implementation [of st1 env0 track0] initialize_selects_implementation [of st0 env0 track0] t by simp
qed

end
